theory Spec2Isabelle
  imports Main "HOL-Library.AList"
begin

section \<open>Values of the Python program\<close>

text \<open>
  The planner's decisions are what \<^verbatim>\<open>json.loads\<close> returns: \<open>JNull\<close> is Python's
  \<^verbatim>\<open>None\<close>, a \<open>dict\<close> is an insertion-ordered association list with distinct keys.
  JSON numbers are modelled as integers.
\<close>

datatype json =
    JNull
  | JBool bool
  | JInt int
  | JStr string
  | JArr "json list"
  | JObj "(string \<times> json) list"

type_synonym dict = "(string \<times> json) list"

text \<open>\<^verbatim>\<open>k in d\<close>, \<^verbatim>\<open>d.get(k, default)\<close> (\<^verbatim>\<open>d.get(k)\<close> has the default \<open>JNull\<close>),
  \<^verbatim>\<open>d[k]\<close> is \<open>dict_get\<close> where the key is known to be present, and \<^verbatim>\<open>d[k] = v\<close>.\<close>

definition dict_has :: "dict \<Rightarrow> string \<Rightarrow> bool" where
  "dict_has d k = (map_of d k \<noteq> None)"

definition dict_get :: "dict \<Rightarrow> string \<Rightarrow> json \<Rightarrow> json" where
  "dict_get d k dflt = (case map_of d k of None \<Rightarrow> dflt | Some v \<Rightarrow> v)"

definition dict_set :: "dict \<Rightarrow> string \<Rightarrow> json \<Rightarrow> dict" where
  "dict_set d k v = AList.update k v d"

text \<open>Python's truth value of a decoded JSON value.\<close>

fun truthy :: "json \<Rightarrow> bool" where
  "truthy JNull = False"
| "truthy (JBool b) = b"
| "truthy (JInt n) = (n \<noteq> 0)"
| "truthy (JStr s) = (s \<noteq> [])"
| "truthy (JArr xs) = (xs \<noteq> [])"
| "truthy (JObj kvs) = (kvs \<noteq> [])"

text \<open>The exceptions the program can raise.\<close>

datatype exn =
    ValueError
  | AttributeError
  | TypeError
  | JSONDecodeError
  | APIError
  | LaunchError
  | CloseError

text \<open>
  What the program uses and is not fixed here: \<^verbatim>\<open>str()\<close> of a value that is not a
  string (what an f-string does to it), \<^verbatim>\<open>json.dumps\<close>, and the text of the planner's
  system prompt (the literal of lines 137 to 204).
\<close>

record pylib =
  str_of :: "json \<Rightarrow> string"
  json_dumps :: "json \<Rightarrow> string"
  prompt_text :: string

text \<open>\<^verbatim>\<open>f"{v}"\<close>: a string is inserted as it is.\<close>

definition fstr :: "pylib \<Rightarrow> json \<Rightarrow> string" where
  "fstr L v = (case v of JStr s \<Rightarrow> s | _ \<Rightarrow> str_of L v)"

section \<open>Action vocabulary\<close>

datatype ActionType = CLICK | TYPE' | EXTRACT | WAIT | NAVIGATE | FINISHED

datatype SelectorType = ID | CLASS | XPATH | TEXT | CSS

text \<open>\<^verbatim>\<open>ActionType(value)\<close> and \<^verbatim>\<open>SelectorType(value)\<close>: the member with that value, or
  \<^verbatim>\<open>ValueError\<close>.\<close>

fun ActionType_of :: "json \<Rightarrow> exn + ActionType" where
  "ActionType_of (JStr s) =
     (if s = ''click'' then Inr CLICK
      else if s = ''type'' then Inr TYPE'
      else if s = ''extract'' then Inr EXTRACT
      else if s = ''wait'' then Inr WAIT
      else if s = ''navigate'' then Inr NAVIGATE
      else if s = ''finished'' then Inr FINISHED
      else Inl ValueError)"
| "ActionType_of _ = Inl ValueError"

fun SelectorType_of :: "json \<Rightarrow> exn + SelectorType" where
  "SelectorType_of (JStr s) =
     (if s = ''id'' then Inr ID
      else if s = ''class'' then Inr CLASS
      else if s = ''xpath'' then Inr XPATH
      else if s = ''text'' then Inr TEXT
      else if s = ''css'' then Inr CSS
      else Inl ValueError)"
| "SelectorType_of _ = Inl ValueError"

record BrowserAction =
  action_type :: "ActionType option"
  selector_type :: "SelectorType option"
  selector :: json
  input_value :: json
  requires_user_input :: json
  user_prompt :: json
  timeout :: json

section \<open>Browser driver\<close>

text \<open>
  The Playwright calls the driver issues, in order, with their arguments, and what the one
  call of an operation answers: it raises, or it returns (\<^verbatim>\<open>wait_for_selector\<close> returns
  an element, whose \<^verbatim>\<open>inner_text()\<close> gives a text or raises, or \<^verbatim>\<open>None\<close>).
\<close>

datatype page_call =
    Launch
  | Goto json
  | Click json json
  | Fill json json json
  | Wait_for_selector json json
  | Content
  | Close

datatype inner_text = Inner_text string | Inner_text_raises

datatype page_reply = Page_raises | Page_returns "inner_text option"

record BrowserAgent =
  current_url :: json

definition BrowserAgent_init :: BrowserAgent where
  "BrowserAgent_init = \<lparr>current_url = JStr ''''\<rparr>"

definition navigate_to_url :: "page_reply \<Rightarrow> json \<Rightarrow> BrowserAgent \<Rightarrow> bool \<times> BrowserAgent \<times> page_call list" where
  "navigate_to_url r url ag =
     (case r of
        Page_returns _ \<Rightarrow> (True, ag\<lparr>current_url := url\<rparr>, [Goto url])
      | Page_raises \<Rightarrow> (False, ag, [Goto url]))"

definition get_selector :: "pylib \<Rightarrow> SelectorType option \<Rightarrow> json \<Rightarrow> json" where
  "get_selector L st sel =
     (if st = Some ID then JStr (''#'' @ fstr L sel)
      else if st = Some CLASS then JStr (''.'' @ fstr L sel)
      else if st = Some XPATH then sel
      else if st = Some TEXT then JStr (''text='' @ fstr L sel)
      else sel)"

definition find_and_click :: "pylib \<Rightarrow> page_reply \<Rightarrow> SelectorType option \<Rightarrow> json \<Rightarrow> json \<Rightarrow> bool \<times> page_call list" where
  "find_and_click L r st sel tmo =
     (let full_selector = get_selector L st sel in
      (case r of Page_returns _ \<Rightarrow> True | Page_raises \<Rightarrow> False, [Click full_selector tmo]))"

definition find_and_type :: "pylib \<Rightarrow> page_reply \<Rightarrow> SelectorType option \<Rightarrow> json \<Rightarrow> json \<Rightarrow> json \<Rightarrow> bool \<times> page_call list" where
  "find_and_type L r st sel text tmo =
     (let full_selector = get_selector L st sel in
      (case r of Page_returns _ \<Rightarrow> True | Page_raises \<Rightarrow> False, [Fill full_selector text tmo]))"

definition extract_content :: "pylib \<Rightarrow> page_reply \<Rightarrow> SelectorType option \<Rightarrow> json \<Rightarrow> json \<Rightarrow> string option \<times> page_call list" where
  "extract_content L r st sel tmo =
     (let full_selector = get_selector L st sel in
      (case r of
         Page_returns (Some (Inner_text t)) \<Rightarrow> Some t
       | Page_returns (Some Inner_text_raises) \<Rightarrow> None
       | Page_returns None \<Rightarrow> None
       | Page_raises \<Rightarrow> None,
       [Wait_for_selector full_selector tmo]))"

definition wait_for_element :: "pylib \<Rightarrow> page_reply \<Rightarrow> SelectorType option \<Rightarrow> json \<Rightarrow> json \<Rightarrow> bool \<times> page_call list" where
  "wait_for_element L r st sel tmo =
     (let full_selector = get_selector L st sel in
      (case r of Page_returns _ \<Rightarrow> True | Page_raises \<Rightarrow> False, [Wait_for_selector full_selector tmo]))"

definition get_current_url :: "BrowserAgent \<Rightarrow> json" where
  "get_current_url ag = current_url ag"

text \<open>\<^verbatim>\<open>get_page_content\<close>: the sanitised markup, or the empty string when reading the page
  raises (the reply \<open>None\<close>).\<close>

definition get_page_content :: "string option \<Rightarrow> string \<times> page_call list" where
  "get_page_content r = (case r of Some html \<Rightarrow> html | None \<Rightarrow> '''', [Content])"

section \<open>Executing one decision\<close>

text \<open>Lines 306 to 314: the \<^verbatim>\<open>BrowserAction\<close> built from the decision.\<close>

definition BrowserAction_of :: "ActionType option \<Rightarrow> dict \<Rightarrow> exn + BrowserAction" where
  "BrowserAction_of at action_data =
     (case (if truthy (dict_get action_data ''selector_type'' JNull)
            then map_sum id Some (SelectorType_of (dict_get action_data ''selector_type'' JNull))
            else Inr None) of
        Inl e \<Rightarrow> Inl e
      | Inr st \<Rightarrow> Inr \<lparr>action_type = at,
                       selector_type = st,
                       selector = dict_get action_data ''selector'' JNull,
                       input_value = dict_get action_data ''input_value'' JNull,
                       requires_user_input = dict_get action_data ''requires_user_input'' (JBool False),
                       user_prompt = dict_get action_data ''user_prompt'' JNull,
                       timeout = dict_get action_data ''timeout'' (JInt 10000)\<rparr>)"

type_synonym exec_result = "(exn + bool \<times> string option) \<times> BrowserAgent option \<times> page_call list"

text \<open>Lines 316 to 332: the dispatch on the kind. A method called on an absent driver
  raises \<^verbatim>\<open>AttributeError\<close>.\<close>

definition dispatch :: "pylib \<Rightarrow> page_reply \<Rightarrow> BrowserAgent option \<Rightarrow> BrowserAction \<Rightarrow> exec_result" where
  "dispatch L r agent action =
     (if action_type action = Some NAVIGATE then
        (case agent of
           None \<Rightarrow> (Inl AttributeError, agent, [])
         | Some ag \<Rightarrow>
             (case navigate_to_url r (input_value action) ag of
                (success, ag', calls) \<Rightarrow> (Inr (success, None), Some ag', calls)))
      else if action_type action = Some CLICK then
        (case agent of
           None \<Rightarrow> (Inl AttributeError, agent, [])
         | Some ag \<Rightarrow>
             (case find_and_click L r (selector_type action) (selector action) (timeout action) of
                (success, calls) \<Rightarrow> (Inr (success, None), agent, calls)))
      else if action_type action = Some TYPE' then
        (case agent of
           None \<Rightarrow> (Inl AttributeError, agent, [])
         | Some ag \<Rightarrow>
             (case find_and_type L r (selector_type action) (selector action) (input_value action)
                     (timeout action) of
                (success, calls) \<Rightarrow> (Inr (success, None), agent, calls)))
      else if action_type action = Some EXTRACT then
        (case agent of
           None \<Rightarrow> (Inl AttributeError, agent, [])
         | Some ag \<Rightarrow>
             (case extract_content L r (selector_type action) (selector action) (timeout action) of
                (content, calls) \<Rightarrow> (Inr (content \<noteq> None, content), agent, calls)))
      else if action_type action = Some WAIT then
        (case agent of
           None \<Rightarrow> (Inl AttributeError, agent, [])
         | Some ag \<Rightarrow>
             (case wait_for_element L r (selector_type action) (selector action) (timeout action) of
                (success, calls) \<Rightarrow> (Inr (success, None), agent, calls)))
      else (Inr (False, None), agent, []))"

definition execute_browser_action :: "pylib \<Rightarrow> page_reply \<Rightarrow> BrowserAgent option \<Rightarrow> dict \<Rightarrow> exec_result" where
  "execute_browser_action L r agent action_data =
     (case (if dict_has action_data ''action_type''
            then map_sum id Some (ActionType_of (dict_get action_data ''action_type'' JNull))
            else Inr None) of
        Inl e \<Rightarrow> (Inl e, agent, [])
      | Inr at \<Rightarrow>
          if at = Some FINISHED then (Inr (True, Some ''finished''), agent, [])
          else
            (case BrowserAction_of at action_data of
               Inl e \<Rightarrow> (Inl e, agent, [])
             | Inr action \<Rightarrow> dispatch L r agent action))"

section \<open>Planner\<close>

record message =
  role :: string
  content :: string

text \<open>One record of the interaction log; \<open>entry_session_id\<close> is its key
  \<^verbatim>\<open>"session_id"\<close>.\<close>

record log_entry =
  timestamp :: string
  entry_session_id :: string
  interaction_type :: string
  messages :: "message list"
  response :: string
  parsed_result :: dict

text \<open>
  The file \<^verbatim>\<open>llm_interactions.json\<close>: absent, holding the empty text the planner
  writes when it is created, or holding the list that \<^verbatim>\<open>json.dump\<close> wrote.
  \<open>log_entries\<close> is what lines 222 to 229 read from it. Opening and writing the file are
  taken to succeed, and the file \<^verbatim>\<open>dump.json\<close> that \<^verbatim>\<open>get_next_action\<close> also writes
  is left out: nothing reads it.
\<close>

datatype log_file = Missing | Blank | Dumped "log_entry list"

definition log_entries :: "log_file \<Rightarrow> log_entry list" where
  "log_entries f = (case f of Dumped logs \<Rightarrow> logs | Blank \<Rightarrow> [] | Missing \<Rightarrow> [])"

record TaskPlanner =
  session_id :: string
  system_prompt :: string

definition TaskPlanner_init :: "pylib \<Rightarrow> string \<Rightarrow> TaskPlanner \<times> log_file" where
  "TaskPlanner_init L uuid = (\<lparr>session_id = take 8 uuid, system_prompt = prompt_text L\<rparr>, Blank)"

definition log_llm_interaction ::
  "string \<Rightarrow> TaskPlanner \<Rightarrow> string \<Rightarrow> message list \<Rightarrow> string \<Rightarrow> dict \<Rightarrow> log_file \<Rightarrow> log_file" where
  "log_llm_interaction now P itype msgs response_content result f =
     (let log_entry = \<lparr>timestamp = now,
                       entry_session_id = session_id P,
                       interaction_type = itype,
                       messages = msgs,
                       response = response_content,
                       parsed_result = result\<rparr>
      in Dumped (log_entries f @ [log_entry]))"

text \<open>What the model call answers: it raises, or it returns a text, together with what
  \<^verbatim>\<open>json.loads\<close> makes of the text (\<open>None\<close>: it raises).\<close>

datatype llm_reply = LLM_raises | LLM_returns string "dict option"

text \<open>Lines 240 to 250: the request of \<^verbatim>\<open>get_next_action\<close>.\<close>

definition next_action_messages ::
  "pylib \<Rightarrow> TaskPlanner \<Rightarrow> string \<Rightarrow> dict option \<Rightarrow> message list option \<Rightarrow> message list" where
  "next_action_messages L P user_input current_state conversation_history =
     [\<lparr>role = ''system'', content = system_prompt P\<rparr>]
     @ (case conversation_history of
          Some h \<Rightarrow> if h \<noteq> [] then h else [\<lparr>role = ''user'', content = user_input\<rparr>]
        | None \<Rightarrow> [\<lparr>role = ''user'', content = user_input\<rparr>])
     @ (case current_state of
          Some cs \<Rightarrow>
            if cs \<noteq> []
            then [\<lparr>role = ''user'', content = ''Current state: '' @ json_dumps L (JObj cs)\<rparr>]
            else []
        | None \<Rightarrow> [])"

text \<open>Lines 275 to 282: the request of \<^verbatim>\<open>handle_error\<close>.\<close>

definition handle_error_messages ::
  "pylib \<Rightarrow> TaskPlanner \<Rightarrow> string \<Rightarrow> dict \<Rightarrow> message list \<Rightarrow> message list" where
  "handle_error_messages L P error current_state conversation_history =
     [\<lparr>role = ''system'', content = system_prompt P\<rparr>]
     @ (if conversation_history \<noteq> [] then conversation_history else [])
     @ [\<lparr>role = ''user'',
         content = ''Error occurred: '' @ error @ [CHR 0x0A] @ ''Current state: ''
                   @ json_dumps L (JObj current_state) @ [CHR 0x0A]
                   @ ''Please provide an alternative approach.''\<rparr>]"

definition get_next_action ::
  "pylib \<Rightarrow> llm_reply \<Rightarrow> string \<Rightarrow> TaskPlanner \<Rightarrow> string \<Rightarrow> dict option \<Rightarrow> message list option \<Rightarrow>
   log_file \<Rightarrow> (exn + dict) \<times> message list option \<times> log_file" where
  "get_next_action L reply now P user_input current_state conversation_history f =
     (let msgs = next_action_messages L P user_input current_state conversation_history
      in case reply of
           LLM_raises \<Rightarrow> (Inl APIError, conversation_history, f)
         | LLM_returns response_content None \<Rightarrow> (Inl JSONDecodeError, conversation_history, f)
         | LLM_returns response_content (Some result) \<Rightarrow>
             (Inr result,
              map_option (\<lambda>h. h @ [\<lparr>role = ''assistant'', content = json_dumps L (JObj result)\<rparr>])
                conversation_history,
              log_llm_interaction now P ''get_next_action'' msgs response_content result f))"

definition handle_error ::
  "pylib \<Rightarrow> llm_reply \<Rightarrow> string \<Rightarrow> TaskPlanner \<Rightarrow> string \<Rightarrow> dict \<Rightarrow> message list \<Rightarrow>
   log_file \<Rightarrow> (exn + dict) \<times> message list \<times> log_file" where
  "handle_error L reply now P error current_state conversation_history f =
     (let msgs = handle_error_messages L P error current_state conversation_history
      in case reply of
           LLM_raises \<Rightarrow> (Inl APIError, conversation_history, f)
         | LLM_returns response_content None \<Rightarrow> (Inl JSONDecodeError, conversation_history, f)
         | LLM_returns response_content (Some result) \<Rightarrow>
             (Inr result,
              conversation_history
              @ [\<lparr>role = ''user'', content = ''Error occurred: '' @ error\<rparr>,
                 \<lparr>role = ''assistant'', content = json_dumps L (JObj result)\<rparr>],
              log_llm_interaction now P ''handle_error'' msgs response_content result f))"

section \<open>Orchestration loop\<close>

text \<open>
  What is observed of a session, in order: the Playwright calls, the planner's two entry
  points with their arguments, and what each call of \<open>execute_browser_action\<close> gave.
\<close>

datatype planner_call =
    Get_next_action string "dict option" "message list option"
  | Handle_error string dict "message list"

datatype event =
    Page page_call
  | Planner planner_call
  | Returned "exn + bool \<times> string option"

text \<open>
  \<^verbatim>\<open>st.session_state\<close> with the log file and the observed events. Before the first run
  no key is set: \<open>task_planner\<close> is \<open>None\<close> and the other fields hold the values lines 339
  to 356 give them.
\<close>

record state =
  agent :: "BrowserAgent option"
  task_planner :: "TaskPlanner option"
  user_task :: "string option"
  conversation_history :: "message list"
  current_action :: "dict option"
  user_inputs :: "(json \<times> string) list"
  finished :: bool
  task_progress :: json
  extracted_content :: "string option"
  log_file :: log_file
  trace :: "event list"

definition first_state :: "log_file \<Rightarrow> state" where
  "first_state f =
     \<lparr>agent = None, task_planner = None, user_task = None, conversation_history = [],
      current_action = None, user_inputs = [], finished = False, task_progress = JStr '''',
      extracted_content = None, log_file = f, trace = []\<rparr>"

text \<open>
  What the world answers during one run of the script: the widgets' values, whether the
  browser launches and closes, the page's answers, the model's answers, the clock and the
  fresh identifier.
\<close>

record env =
  uuid4 :: string
  task_input :: string
  launches :: bool
  snapshot_plan :: "string option"
  plan_reply :: llm_reply
  plan_time :: string
  user_response :: string
  submit :: bool
  page_answer :: page_reply
  start_new_task :: bool
  closes :: bool
  snapshot_recover :: "string option"
  recover_reply :: llm_reply
  recover_time :: string

text \<open>How a run ends: \<^verbatim>\<open>st.rerun()\<close>, the end of the script, or an exception.\<close>

datatype outcome = Rerun | Done | Raised exn

text \<open>The key of a dictionary entry: lists and dictionaries cannot be hashed, and
  \<^verbatim>\<open>True\<close> and \<^verbatim>\<open>1\<close> are the same key.\<close>

fun hash_key :: "json \<Rightarrow> json option" where
  "hash_key (JArr xs) = None"
| "hash_key (JObj kvs) = None"
| "hash_key (JBool b) = Some (JInt (if b then 1 else 0))"
| "hash_key v = Some v"

text \<open>Lines 341 and 342: the session's planner, created in the first run.\<close>

definition session_planner :: "pylib \<Rightarrow> env \<Rightarrow> state \<Rightarrow> TaskPlanner \<times> state" where
  "session_planner L env s =
     (case task_planner s of
        Some P \<Rightarrow> (P, s)
      | None \<Rightarrow>
          (case TaskPlanner_init L (uuid4 env) of
             (P, f) \<Rightarrow> (P, s\<lparr>task_planner := Some P, log_file := f\<rparr>)))"

text \<open>Lines 358 to 364: no task yet.\<close>

definition start_task :: "env \<Rightarrow> state \<Rightarrow> outcome \<times> state" where
  "start_task env s =
     (if task_input env \<noteq> [] then
        (let s1 = s\<lparr>user_task := Some (task_input env),
                     conversation_history := [\<lparr>role = ''user'', content = task_input env\<rparr>],
                     trace := trace s @ [Page Launch]\<rparr>
         in if launches env then (Rerun, s1\<lparr>agent := Some BrowserAgent_init\<rparr>)
            else (Raised LaunchError, s1))
      else (Done, s))"

text \<open>Lines 374 to 384: a decision is asked for when none is pending.\<close>

definition plan :: "pylib \<Rightarrow> env \<Rightarrow> TaskPlanner \<Rightarrow> string \<Rightarrow> state \<Rightarrow> exn option \<times> state" where
  "plan L env P task s =
     (if current_action s = None \<or> current_action s = Some [] then
        (case (case agent s of
                 Some ag \<Rightarrow> (get_current_url ag, get_page_content (snapshot_plan env))
               | None \<Rightarrow> (JStr '''', '''', [])) of
           (url, html, calls) \<Rightarrow>
             (let current_state = [(''current_url'', url), (''page_content'', JStr html)] in
              case get_next_action L (plan_reply env) (plan_time env) P task (Some current_state)
                     (Some (conversation_history s)) (log_file s) of
                (res, h, f) \<Rightarrow>
                  (let s1 = s\<lparr>conversation_history :=
                                 (case h of Some h' \<Rightarrow> h' | None \<Rightarrow> conversation_history s),
                               log_file := f,
                               trace := trace s @ map Page calls
                                 @ [Planner (Get_next_action task (Some current_state)
                                      (Some (conversation_history s)))]\<rparr>
                   in case res of
                        Inl e \<Rightarrow> (Some e, s1)
                      | Inr result \<Rightarrow> (None, s1\<lparr>current_action := Some result\<rparr>))))
      else (None, s))"

text \<open>Lines 396 to 401: the question is shown, and its answer recorded on Submit.\<close>

definition await :: "env \<Rightarrow> dict \<Rightarrow> json \<Rightarrow> state \<Rightarrow> outcome \<times> state" where
  "await env d k s =
     (if submit env then
        (Rerun,
         s\<lparr>user_inputs := AList.update k (user_response env) (user_inputs s),
           current_action := Some (dict_set d ''input_value'' (JStr (user_response env))),
           conversation_history := conversation_history s
             @ [\<lparr>role = ''user'', content = ''User provided input: '' @ user_response env\<rparr>]\<rparr>)
      else (Done, s))"

text \<open>Lines 410 to 421: the button that starts a new task.\<close>

definition new_task :: "env \<Rightarrow> state \<Rightarrow> outcome \<times> state" where
  "new_task env s =
     (let cleared = s\<lparr>agent := None, user_task := None, conversation_history := [],
                      current_action := None, user_inputs := [], finished := False,
                      task_progress := JStr '''', extracted_content := None\<rparr>
      in case agent s of
           None \<Rightarrow> (Rerun, cleared)
         | Some ag \<Rightarrow>
             if closes env then (Rerun, cleared\<lparr>trace := trace s @ [Page Close]\<rparr>)
             else (Raised CloseError, s\<lparr>trace := trace s @ [Page Close]\<rparr>))"

text \<open>Lines 407 to 428: after an execution that succeeded.\<close>

definition on_success :: "env \<Rightarrow> dict \<Rightarrow> string option \<Rightarrow> state \<Rightarrow> outcome \<times> state" where
  "on_success env d extracted s =
     (if dict_get d ''action_type'' JNull = JStr ''finished'' then
        (let s1 = s\<lparr>finished := True\<rparr> in
         if start_new_task env then new_task env s1 else (Done, s1))
      else
        (let s1 = (case extracted of
                     Some t \<Rightarrow>
                       if t \<noteq> [] then
                         s\<lparr>extracted_content := Some t,
                           conversation_history := conversation_history s
                             @ [\<lparr>role = ''user'', content = ''Extracted content: '' @ t\<rparr>]\<rparr>
                       else s
                   | None \<Rightarrow> s)
         in (Rerun, s1\<lparr>current_action := None\<rparr>)))"

text \<open>Lines 430 to 441: after an execution that failed.\<close>

definition recover :: "pylib \<Rightarrow> env \<Rightarrow> TaskPlanner \<Rightarrow> state \<Rightarrow> outcome \<times> state" where
  "recover L env P s =
     (case agent s of
        None \<Rightarrow> (Raised AttributeError, s)
      | Some ag \<Rightarrow>
          (case get_page_content (snapshot_recover env) of
             (html, calls) \<Rightarrow>
               (let current_state =
                      [(''current_url'', get_current_url ag), (''page_content'', JStr html)] in
                case handle_error L (recover_reply env) (recover_time env) P ''Action failed''
                       current_state (conversation_history s) (log_file s) of
                  (res, h, f) \<Rightarrow>
                    (let s1 = s\<lparr>conversation_history := h,
                                 log_file := f,
                                 trace := trace s @ map Page calls
                                   @ [Planner (Handle_error ''Action failed'' current_state
                                        (conversation_history s))]\<rparr>
                     in case res of
                          Inl e \<Rightarrow> (Raised e, s1)
                        | Inr result \<Rightarrow> (Rerun, s1\<lparr>current_action := Some result\<rparr>)))))"

text \<open>Lines 403 to 441: the pending decision is executed.\<close>

definition execute :: "pylib \<Rightarrow> env \<Rightarrow> TaskPlanner \<Rightarrow> dict \<Rightarrow> state \<Rightarrow> outcome \<times> state" where
  "execute L env P d s =
     (case execute_browser_action L (page_answer env) (agent s) d of
        (res, agent', calls) \<Rightarrow>
          (let s1 = s\<lparr>agent := agent', trace := trace s @ map Page calls @ [Returned res]\<rparr> in
           case res of
             Inl e \<Rightarrow> (Raised e, s1)
           | Inr (success, extracted) \<Rightarrow>
               if success then on_success env d extracted s1 else recover L env P s1))"

text \<open>Lines 386 to 441: the pending decision \<open>d\<close> waits for the user's answer or is
  executed.\<close>

definition act :: "pylib \<Rightarrow> env \<Rightarrow> TaskPlanner \<Rightarrow> dict \<Rightarrow> state \<Rightarrow> outcome \<times> state" where
  "act L env P d s =
     (let s1 = (if dict_has d ''task_progress''
                then s\<lparr>task_progress := dict_get d ''task_progress'' JNull\<rparr> else s);
          requires_input = dict_get d ''requires_user_input'' (JBool False);
          prompt = dict_get d ''user_prompt'' (JStr '''')
      in if truthy requires_input then
           (case hash_key prompt of
              None \<Rightarrow> (Raised TypeError, s1)
            | Some k \<Rightarrow>
                if map_of (user_inputs s1) k = None then await env d k s1
                else execute L env P d s1)
         else execute L env P d s1)"

text \<open>Lines 366 to 441: a task is set and not finished.\<close>

definition run_task :: "pylib \<Rightarrow> env \<Rightarrow> TaskPlanner \<Rightarrow> string \<Rightarrow> state \<Rightarrow> outcome \<times> state" where
  "run_task L env P task s =
     (case plan L env P task s of
        (Some e, s1) \<Rightarrow> (Raised e, s1)
      | (None, s1) \<Rightarrow>
          (case current_action s1 of
             Some d \<Rightarrow> act L env P d s1
           | None \<Rightarrow> (Raised TypeError, s1)))"

text \<open>One run of the script.\<close>

definition main :: "pylib \<Rightarrow> env \<Rightarrow> state \<Rightarrow> outcome \<times> state" where
  "main L env s0 =
     (case session_planner L env s0 of
        (P, s) \<Rightarrow>
          (case user_task s of
             None \<Rightarrow> start_task env s
           | Some task \<Rightarrow>
               if task = [] then start_task env s
               else if finished s then (Done, s)
               else run_task L env P task s))"

text \<open>The runs of a session, one after the other.\<close>

fun runs :: "pylib \<Rightarrow> env list \<Rightarrow> state \<Rightarrow> state" where
  "runs L [] s = s"
| "runs L (env # envs) s = runs L envs (snd (main L env s))"

section \<open>Sequences of navigations\<close>

text \<open>The driver after a sequence of \<^verbatim>\<open>navigate_to_url\<close> calls, each with the page's
  answer and the URL.\<close>

fun navigate_all :: "(page_reply \<times> json) list \<Rightarrow> BrowserAgent \<Rightarrow> BrowserAgent" where
  "navigate_all [] ag = ag"
| "navigate_all ((r, url) # rest) ag = navigate_all rest (fst (snd (navigate_to_url r url ag)))"

text \<open>In the words of the specification: the last URL the driver successfully navigated
  to, the empty string before the first successful navigation.\<close>

definition last_navigated :: "(page_reply \<times> json) list \<Rightarrow> json" where
  "last_navigated navs =
     (case filter (\<lambda>(r, url). r \<noteq> Page_raises) navs of
        [] \<Rightarrow> JStr ''''
      | xs \<Rightarrow> snd (last xs))"

section \<open>Concrete inputs\<close>

text \<open>Library functions, and a run in which nothing is typed or clicked, the browser
  answers and the model call fails; the scenarios below change it field by field.\<close>

definition sample_lib :: pylib where
  "sample_lib =
     \<lparr>str_of = (\<lambda>v. ''None''), json_dumps = (\<lambda>v. ''{}''),
      prompt_text = ''You are a browser automation expert''\<rparr>"

definition quiet :: env where
  "quiet =
     \<lparr>uuid4 = ''0f8fad5b-d9cb-469f-a165-70867728950e'', task_input = '''', launches = True,
      snapshot_plan = Some ''<html></html>'', plan_reply = LLM_raises,
      plan_time = ''2026-01-01T00:00:00'', user_response = '''', submit = False,
      page_answer = Page_returns None, start_new_task = False, closes = True,
      snapshot_recover = Some ''<html></html>'', recover_reply = LLM_raises,
      recover_time = ''2026-01-01T00:00:01''\<rparr>"

text \<open>A session with a task, a driver and a planner, and no pending decision.\<close>

definition sample_planner :: TaskPlanner where
  "sample_planner = \<lparr>session_id = ''0f8fad5b'', system_prompt = ''You are a browser automation expert''\<rparr>"

definition sample_state :: state where
  "sample_state =
     \<lparr>agent = Some BrowserAgent_init, task_planner = Some sample_planner,
      user_task = Some ''go'', conversation_history = [\<lparr>role = ''user'', content = ''go''\<rparr>],
      current_action = None, user_inputs = [], finished = False, task_progress = JStr '''',
      extracted_content = None, log_file = Blank, trace = [Page Launch]\<rparr>"

lemmas run_defs =
  main_def session_planner_def TaskPlanner_init_def start_task_def run_task_def plan_def
  act_def execute_def recover_def on_success_def new_task_def await_def
  get_next_action_def handle_error_def next_action_messages_def handle_error_messages_def
  log_llm_interaction_def log_entries_def
  execute_browser_action_def BrowserAction_of_def dispatch_def
  navigate_to_url_def find_and_click_def find_and_type_def extract_content_def
  wait_for_element_def get_selector_def fstr_def get_current_url_def get_page_content_def
  BrowserAgent_init_def dict_has_def dict_get_def dict_set_def first_state_def
  sample_lib_def quiet_def sample_planner_def sample_state_def

text \<open>Decisions of the planner: a click on the element with id \<open>login\<close>, the extraction of
  the text of \<open>.price\<close>, the end of the task, and a field the user is asked for.\<close>

definition click_login :: dict where
  "click_login =
     [(''action_type'', JStr ''click''), (''selector_type'', JStr ''id''),
      (''selector'', JStr ''login''), (''timeout'', JInt 5000)]"

definition extract_price :: dict where
  "extract_price =
     [(''action_type'', JStr ''extract''), (''selector_type'', JStr ''css''),
      (''selector'', JStr ''.price'')]"

definition finished_decision :: dict where
  "finished_decision = [(''action_type'', JStr ''finished''), (''explanation'', JStr ''done'')]"

definition ask_email :: dict where
  "ask_email =
     [(''action_type'', JStr ''type''), (''selector_type'', JStr ''id''),
      (''selector'', JStr ''email''), (''requires_user_input'', JBool True),
      (''user_prompt'', JStr ''What is your email?'')]"

text \<open>Runs: the click fails and the model answers the recovery request with the empty
  object; the page gives a price, or an empty text; the user submits an address.\<close>

definition failing_click :: env where
  "failing_click = quiet\<lparr>page_answer := Page_raises, recover_reply := LLM_returns ''{}'' (Some [])\<rparr>"

definition price_found :: env where
  "price_found = quiet\<lparr>page_answer := Page_returns (Some (Inner_text ''$19.99''))\<rparr>"

definition empty_text_found :: env where
  "empty_text_found = quiet\<lparr>page_answer := Page_returns (Some (Inner_text ''''))\<rparr>"

definition email_submitted :: env where
  "email_submitted = quiet\<lparr>user_response := ''a@b.com'', submit := True\<rparr>"

definition empty_decisions :: env where
  "empty_decisions =
     quiet\<lparr>plan_reply := LLM_returns ''{}'' (Some []), recover_reply := LLM_returns ''{}'' (Some [])\<rparr>"

text \<open>A wait for the element with id \<open>login\<close>, and a run in which the click fails and the
  model answers the recovery request with that wait.\<close>

definition wait_login :: dict where
  "wait_login =
     [(''action_type'', JStr ''wait''), (''selector_type'', JStr ''id''),
      (''selector'', JStr ''login'')]"

definition click_fails_then_waits :: env where
  \<open>click_fails_then_waits =
     quiet\<lparr>page_answer := Page_raises,
           recover_reply :=
             LLM_returns ''{"action_type": "wait", "selector_type": "id", "selector": "login"}''
               (Some wait_login)\<rparr>\<close>

section \<open>Growth of the interaction log\<close>

text \<open>The file \<open>f'\<close> holds the records of \<open>f\<close> followed by records that planner \<open>P\<close>
  wrote through one of its two entry points.\<close>

definition extends_log :: "TaskPlanner \<Rightarrow> log_file \<Rightarrow> log_file \<Rightarrow> bool" where
  "extends_log P f f' \<longleftrightarrow>
     (\<exists>new. log_entries f' = log_entries f @ new \<and>
        (\<forall>e \<in> set new. interaction_type e \<in> {''get_next_action'', ''handle_error''} \<and>
                         entry_session_id e = session_id P))"

section \<open>The selector mapping\<close>

text \<open>
  C3. The locator of a selector kind and a raw selector string \<open>s\<close> is \<open>#s\<close> for ID,
  \<open>.s\<close> for CLASS, \<open>s\<close> itself for XPATH, \<open>text=s\<close> for TEXT and \<open>s\<close> itself for CSS;
  it depends on nothing but the kind and the string.
\<close>

theorem get_selector_mapping:
  "get_selector L (Some ID) (JStr s) = JStr (''#'' @ s) \<and>
   get_selector L (Some CLASS) (JStr s) = JStr (''.'' @ s) \<and>
   get_selector L (Some XPATH) (JStr s) = JStr s \<and>
   get_selector L (Some TEXT) (JStr s) = JStr (''text='' @ s) \<and>
   get_selector L (Some CSS) (JStr s) = JStr s"
  by (simp add: get_selector_def fstr_def)

section \<open>Navigation and the recorded URL\<close>

lemma navigate_all_current_url:
  "current_url (navigate_all navs ag) =
     (case filter (\<lambda>(r, url). r \<noteq> Page_raises) navs of
        [] \<Rightarrow> current_url ag
      | xs \<Rightarrow> snd (last xs))"
proof (induction navs arbitrary: ag)
  case Nil
  then show ?case by simp
next
  case (Cons a navs)
  obtain r url where a: "a = (r, url)" by (cases a)
  show ?case
    by (cases r) (simp_all add: a Cons.IH navigate_to_url_def split: list.splits)
qed

text \<open>
  C6. A navigation whose page load raises returns failure and leaves the recorded URL as it
  was; one that returns records its URL; the recorded URL is the empty string in a new
  driver, and after any sequence of navigations it is the URL of the last one that
  succeeded (the empty string when none did).
\<close>

theorem navigate_records_last_success:
  "navigate_to_url Page_raises url ag = (False, ag, [Goto url]) \<and>
   navigate_to_url (Page_returns x) url ag = (True, ag\<lparr>current_url := url\<rparr>, [Goto url]) \<and>
   get_current_url BrowserAgent_init = JStr '''' \<and>
   get_current_url (navigate_all navs BrowserAgent_init) = last_navigated navs"
  by (simp add: navigate_to_url_def get_current_url_def BrowserAgent_init_def
      navigate_all_current_url last_navigated_def split: list.splits)

section \<open>Decoding a decision\<close>

lemma SelectorType_of_error: "SelectorType_of v = Inl e \<Longrightarrow> e = ValueError"
  by (cases v) (auto split: if_splits)

lemma BrowserAction_of_error: "BrowserAction_of at d = Inl e \<Longrightarrow> e = ValueError"
  unfolding BrowserAction_of_def
  by (cases "SelectorType_of (dict_get d ''selector_type'' JNull)")
     (auto split: if_splits dest: SelectorType_of_error)

lemma dispatch_no_kind:
  "action_type a = None \<Longrightarrow> dispatch L r ag a = (Inr (False, None), ag, [])"
  by (simp add: dispatch_def)

lemma BrowserAction_of_kind: "BrowserAction_of at d = Inr a \<Longrightarrow> action_type a = at"
  unfolding BrowserAction_of_def by (auto split: sum.splits)

text \<open>
  C4. A decision without the key \<open>action_type\<close> gives a failure, the result
  \<open>(False, None)\<close> or a \<open>ValueError\<close>, and a decision whose \<open>action_type\<close> is not one of
  the six kind strings gives a \<open>ValueError\<close>; in both cases no driver operation is
  invoked and the driver is left as it was.
\<close>

theorem undecodable_kind_fails:
  "(\<not> dict_has d ''action_type'' \<longrightarrow>
      execute_browser_action L r ag d = (Inr (False, None), ag, []) \<or>
      execute_browser_action L r ag d = (Inl ValueError, ag, [])) \<and>
   (dict_has d ''action_type'' \<and>
    dict_get d ''action_type'' JNull \<notin>
      JStr ` {''click'', ''type'', ''extract'', ''wait'', ''navigate'', ''finished''} \<longrightarrow>
      execute_browser_action L r ag d = (Inl ValueError, ag, []))"
proof (intro conjI impI)
  assume "\<not> dict_has d ''action_type''"
  then show "execute_browser_action L r ag d = (Inr (False, None), ag, []) \<or>
      execute_browser_action L r ag d = (Inl ValueError, ag, [])"
    by (cases "BrowserAction_of None d")
       (auto simp: execute_browser_action_def dispatch_no_kind
             dest: BrowserAction_of_error BrowserAction_of_kind)
next
  assume a: "dict_has d ''action_type'' \<and>
    dict_get d ''action_type'' JNull \<notin>
      JStr ` {''click'', ''type'', ''extract'', ''wait'', ''navigate'', ''finished''}"
  then have "ActionType_of (dict_get d ''action_type'' JNull) = Inl ValueError"
    by (cases "dict_get d ''action_type'' JNull") auto
  with a show "execute_browser_action L r ag d = (Inl ValueError, ag, [])"
    by (simp add: execute_browser_action_def)
qed

theorem undecodable_kind_fails_witness:
  "\<not> dict_has [(''selector'', JStr ''login'')] ''action_type'' \<and>
   execute_browser_action sample_lib (Page_returns None) (Some BrowserAgent_init)
     [(''selector'', JStr ''login'')] = (Inr (False, None), Some BrowserAgent_init, []) \<and>
   dict_has [(''action_type'', JStr ''CLICK'')] ''action_type'' \<and>
   dict_get [(''action_type'', JStr ''CLICK'')] ''action_type'' JNull \<notin>
     JStr ` {''click'', ''type'', ''extract'', ''wait'', ''navigate'', ''finished''} \<and>
   execute_browser_action sample_lib (Page_returns None) (Some BrowserAgent_init)
     [(''action_type'', JStr ''CLICK'')] = (Inl ValueError, Some BrowserAgent_init, [])"
proof -
  have h: "dict_has [(''action_type'', JStr ''CLICK'')] ''action_type'' \<and>
      dict_get [(''action_type'', JStr ''CLICK'')] ''action_type'' JNull \<notin>
        JStr ` {''click'', ''type'', ''extract'', ''wait'', ''navigate'', ''finished''}"
    by (simp add: dict_has_def dict_get_def)
  have e: "execute_browser_action sample_lib (Page_returns None) (Some BrowserAgent_init)
      [(''selector'', JStr ''login'')] = (Inr (False, None), Some BrowserAgent_init, [])"
    by (simp add: run_defs)
  show ?thesis
    using h e
      undecodable_kind_fails [of "[(''action_type'', JStr ''CLICK'')]" sample_lib
        "Page_returns None" "Some BrowserAgent_init"]
      undecodable_kind_fails [of "[(''selector'', JStr ''login'')]" sample_lib
        "Page_returns None" "Some BrowserAgent_init"]
    by (simp add: dict_has_def)
qed

text \<open>
  C8 as stated fails: a supplied timeout that is not positive is kept. Here a click is
  decoded with the timeout 0.
\<close>

theorem timeout_nonpositive_kept:
  "map_sum id timeout (BrowserAction_of (Some CLICK)
     [(''action_type'', JStr ''click''), (''selector_type'', JStr ''id''),
      (''selector'', JStr ''login''), (''timeout'', JInt 0)]) = Inr (JInt 0)"
  by (simp add: BrowserAction_of_def dict_get_def)

text \<open>
  C8, amended. The timeout of the decoded action is 10000 when the decision has no key
  \<open>timeout\<close>, and is the supplied value, whatever it is, when it has one.
\<close>

theorem timeout_default:
  "BrowserAction_of at d = Inr a \<Longrightarrow>
   timeout a = (if dict_has d ''timeout'' then dict_get d ''timeout'' JNull else JInt 10000)"
proof -
  have t: "dict_get d ''timeout'' (JInt 10000) =
      (if dict_has d ''timeout'' then dict_get d ''timeout'' JNull else JInt 10000)"
    by (simp add: dict_get_def dict_has_def split: option.splits)
  assume "BrowserAction_of at d = Inr a"
  then have "timeout a = dict_get d ''timeout'' (JInt 10000)"
    unfolding BrowserAction_of_def by (auto split: sum.splits)
  with t show ?thesis by simp
qed

theorem timeout_default_witness:
  "BrowserAction_of (Some CLICK) [(''action_type'', JStr ''click'')] =
     Inr \<lparr>action_type = Some CLICK, selector_type = None, selector = JNull,
          input_value = JNull, requires_user_input = JBool False, user_prompt = JNull,
          timeout = JInt 10000\<rparr> \<and>
   timeout \<lparr>action_type = Some CLICK, selector_type = None, selector = JNull,
          input_value = JNull, requires_user_input = JBool False, user_prompt = JNull,
          timeout = JInt 10000\<rparr> = JInt 10000"
proof -
  have h: "BrowserAction_of (Some CLICK) [(''action_type'', JStr ''click'')] =
     Inr \<lparr>action_type = Some CLICK, selector_type = None, selector = JNull,
          input_value = JNull, requires_user_input = JBool False, user_prompt = JNull,
          timeout = JInt 10000\<rparr>"
    by (simp add: BrowserAction_of_def dict_get_def)
  show ?thesis
    using h timeout_default [OF h] by (simp add: dict_has_def)
qed

text \<open>
  C10. A decision of kind click, type, extract or wait whose \<open>selector_type\<close> is a
  non-empty string other than the five selector kinds makes \<open>execute_browser_action\<close>
  raise \<open>ValueError\<close>: it returns no \<open>(False, None)\<close>, and no driver operation is invoked.
\<close>

theorem invalid_selector_type_raises:
  assumes "dict_get d ''action_type'' JNull \<in> JStr ` {''click'', ''type'', ''extract'', ''wait''}"
    and "dict_get d ''selector_type'' JNull = JStr s"
    and "s \<noteq> []"
    and "s \<notin> {''id'', ''class'', ''xpath'', ''text'', ''css''}"
  shows "execute_browser_action L r ag d = (Inl ValueError, ag, [])"
proof -
  have has: "dict_has d ''action_type''"
    using assms(1) by (auto simp: dict_get_def dict_has_def split: option.splits)
  obtain at where at: "ActionType_of (dict_get d ''action_type'' JNull) = Inr at" "at \<noteq> FINISHED"
    using assms(1) by auto
  have "BrowserAction_of (Some at) d = Inl ValueError"
    using assms(2-4) by (simp add: BrowserAction_of_def)
  then show ?thesis
    using has at by (simp add: execute_browser_action_def)
qed

theorem invalid_selector_type_raises_witness:
  "dict_get [(''action_type'', JStr ''click''), (''selector_type'', JStr ''name''),
             (''selector'', JStr ''q'')] ''action_type'' JNull
     \<in> JStr ` {''click'', ''type'', ''extract'', ''wait''} \<and>
   dict_get [(''action_type'', JStr ''click''), (''selector_type'', JStr ''name''),
             (''selector'', JStr ''q'')] ''selector_type'' JNull = JStr ''name'' \<and>
   ''name'' \<noteq> [] \<and>
   ''name'' \<notin> {''id'', ''class'', ''xpath'', ''text'', ''css''} \<and>
   execute_browser_action sample_lib Page_raises (Some BrowserAgent_init)
     [(''action_type'', JStr ''click''), (''selector_type'', JStr ''name''),
      (''selector'', JStr ''q'')] = (Inl ValueError, Some BrowserAgent_init, [])"
proof -
  have h1: "dict_get [(''action_type'', JStr ''click''), (''selector_type'', JStr ''name''),
             (''selector'', JStr ''q'')] ''action_type'' JNull
     \<in> JStr ` {''click'', ''type'', ''extract'', ''wait''}"
    by (simp add: dict_get_def)
  have h2: "dict_get [(''action_type'', JStr ''click''), (''selector_type'', JStr ''name''),
             (''selector'', JStr ''q'')] ''selector_type'' JNull = JStr ''name''"
    by (simp add: dict_get_def)
  have h3: "''name'' \<noteq> []" by simp
  have h4: "''name'' \<notin> {''id'', ''class'', ''xpath'', ''text'', ''css''}" by simp
  show ?thesis
    using h1 h2 invalid_selector_type_raises [OF h1 h2 h3 h4, of sample_lib Page_raises
      "Some BrowserAgent_init"]
    by simp
qed

section \<open>The run of a pending decision\<close>

text \<open>A run of the script with a task, a pending decision and no question to the user is
  the execution of that decision: \<open>execute\<close> is what \<open>main\<close> does from line 403 on.\<close>

lemma main_reaches_execute:
  assumes "task_planner s = Some P" and "user_task s = Some task" and "task \<noteq> []"
    and "\<not> finished s" and "current_action s = Some d" and "d \<noteq> []"
    and "\<not> truthy (dict_get d ''requires_user_input'' (JBool False))"
  shows "main L env s =
           execute L env P d
             (if dict_has d ''task_progress''
              then s\<lparr>task_progress := dict_get d ''task_progress'' JNull\<rparr> else s)"
  using assms
  by (simp add: main_def session_planner_def run_task_def plan_def act_def Let_def)

section \<open>Failure and recovery\<close>

lemma dispatch_failure_agent:
  "dispatch L r a ba = (Inr (False, x), a', calls) \<Longrightarrow> a' = a"
  by (auto simp: dispatch_def navigate_to_url_def find_and_click_def find_and_type_def
        extract_content_def wait_for_element_def Let_def
      split: if_splits option.splits page_reply.splits prod.splits)

lemma execute_browser_action_failure_agent:
  "execute_browser_action L r a d = (Inr (False, x), a', calls) \<Longrightarrow> a' = a"
  unfolding execute_browser_action_def
  by (auto split: sum.splits if_splits dest: dispatch_failure_agent)

text \<open>An execution that returns failure for a decision with an \<open>action_type\<close> had a
  driver: without one, each of the five kinds raises \<open>AttributeError\<close>.\<close>

lemma failure_with_kind_has_driver:
  assumes "dict_has d ''action_type''"
    and "execute_browser_action L r a d = (Inr (False, x), a', calls)"
  shows "a \<noteq> None"
proof
  assume n: "a = None"
  show False
  proof (cases "ActionType_of (dict_get d ''action_type'' JNull)")
    case (Inl e)
    then show False using assms by (simp add: execute_browser_action_def)
  next
    case (Inr at)
    show False
    proof (cases "BrowserAction_of (Some at) d")
      case (Inl e)
      then show False using assms Inr by (simp add: execute_browser_action_def split: if_splits)
    next
      case (Inr ba)
      have k: "action_type ba = Some at" using BrowserAction_of_kind [OF Inr] .
      show False
        using assms \<open>ActionType_of (dict_get d ''action_type'' JNull) = Inr at\<close> Inr k n
        by (cases at) (simp_all add: execute_browser_action_def dispatch_def)
    qed
  qed
qed

text \<open>
  In a session that holds a driver, when the execution of the pending decision returns
  failure, the events that follow it in the same run are the reading of the page and then
  the call of \<open>handle_error\<close> with the description \<open>Action failed\<close>, the URL recorded by
  the driver after the execution, the page content read after it, and the history; no call
  of \<open>get_next_action\<close> comes between. When the model's answer decodes to a decision,
  that decision is the pending one and the script is rerun.
\<close>

lemma failure_then_recovery:
  assumes "agent s = Some ag"
    and "execute_browser_action L (page_answer env) (Some ag) d = (Inr (False, x), ag', calls)"
  shows "trace (snd (execute L env P d s)) =
           trace s @ map Page calls
           @ [Returned (Inr (False, x)), Page Content,
              Planner (Handle_error ''Action failed''
                [(''current_url'', get_current_url ag),
                 (''page_content'', JStr (fst (get_page_content (snapshot_recover env))))]
                (conversation_history s))] \<and>
         (\<forall>raw result. recover_reply env = LLM_returns raw (Some result) \<longrightarrow>
            fst (execute L env P d s) = Rerun \<and>
            current_action (snd (execute L env P d s)) = Some result)"
proof -
  have ag': "ag' = Some ag"
    using execute_browser_action_failure_agent [OF assms(2)] .
  show ?thesis
    using assms ag'
    by (auto simp: execute_def recover_def handle_error_def get_page_content_def Let_def
        split: llm_reply.splits option.splits)
qed

text \<open>The same holds of every decision that has an \<open>action_type\<close>, with no condition on
  the session: its failed execution is followed by the call of \<open>handle_error\<close>.\<close>

lemma failure_with_kind_then_recovery:
  assumes "dict_has d ''action_type''"
    and "execute_browser_action L (page_answer env) (agent s) d = (Inr (False, x), ag', calls)"
  shows "\<exists>ag. agent s = Some ag \<and>
           trace (snd (execute L env P d s)) =
             trace s @ map Page calls
             @ [Returned (Inr (False, x)), Page Content,
                Planner (Handle_error ''Action failed''
                  [(''current_url'', get_current_url ag),
                   (''page_content'', JStr (fst (get_page_content (snapshot_recover env))))]
                  (conversation_history s))]"
proof -
  obtain ag where ag: "agent s = Some ag"
    using failure_with_kind_has_driver [OF assms] by auto
  have "execute_browser_action L (page_answer env) (Some ag) d = (Inr (False, x), ag', calls)"
    using assms(2) ag by simp
  from failure_then_recovery [OF ag this] ag show ?thesis by blast
qed

text \<open>Scenario: the click on \<open>login\<close> finds no element; the planner is asked for a
  recovery and answers with a wait, which becomes the pending decision.\<close>

lemma failure_then_recovery_example:
  "execute_browser_action sample_lib (page_answer click_fails_then_waits) (Some BrowserAgent_init)
     click_login =
     (Inr (False, None), Some BrowserAgent_init, [Click (JStr ''#login'') (JInt 5000)]) \<and>
   trace (snd (execute sample_lib click_fails_then_waits sample_planner click_login
                 (sample_state\<lparr>current_action := Some click_login\<rparr>))) =
     [Page Launch, Page (Click (JStr ''#login'') (JInt 5000)), Returned (Inr (False, None)),
      Page Content,
      Planner (Handle_error ''Action failed''
        [(''current_url'', JStr ''''), (''page_content'', JStr ''<html></html>'')]
        [\<lparr>role = ''user'', content = ''go''\<rparr>])] \<and>
   fst (execute sample_lib click_fails_then_waits sample_planner click_login
          (sample_state\<lparr>current_action := Some click_login\<rparr>)) = Rerun \<and>
   current_action (snd (execute sample_lib click_fails_then_waits sample_planner click_login
                          (sample_state\<lparr>current_action := Some click_login\<rparr>))) =
     Some wait_login"
proof -
  have h1: "agent (sample_state\<lparr>current_action := Some click_login\<rparr>) = Some BrowserAgent_init"
    by (simp add: sample_state_def)
  have h2: "execute_browser_action sample_lib (page_answer click_fails_then_waits)
      (Some BrowserAgent_init) click_login =
      (Inr (False, None), Some BrowserAgent_init, [Click (JStr ''#login'') (JInt 5000)])"
    by (simp add: run_defs click_fails_then_waits_def click_login_def Let_def)
  have r: "\<exists>raw. recover_reply click_fails_then_waits = LLM_returns raw (Some wait_login)"
    by (simp add: click_fails_then_waits_def)
  show ?thesis
    using h1 h2 r failure_then_recovery [OF h1 h2, of sample_planner]
    by (auto simp: get_current_url_def get_page_content_def BrowserAgent_init_def
        sample_state_def click_fails_then_waits_def quiet_def)
qed

text \<open>
  C1. After an execution that returns failure, the next planner call has to be
  \<open>handle_error\<close> with the description \<open>Action failed\<close> and the current browser state,
  never \<open>get_next_action\<close>. The code breaks this in a session without a driver. The
  browser does not launch when the task \<open>go\<close> is entered: line 363 raises after line 361
  has stored the task, so the session has a task and no driver. In the second run the
  model answers \<open>get_next_action\<close> with the empty object; executing it returns
  \<open>(False, None)\<close>, and the failure branch reads the driver at line 433 without the test
  for an absent driver that lines 377 and 411 make, so the run ends in \<open>AttributeError\<close>
  before \<open>handle_error\<close> is called. In the third run the empty pending decision counts
  as none at line 374, and the planner call that follows the failed execution is
  \<open>get_next_action\<close>.
\<close>

theorem recovery_skipped_without_driver:
  "agent (runs sample_lib [quiet\<lparr>task_input := ''go'', launches := False\<rparr>] (first_state Missing)) = None \<and>
   user_task (runs sample_lib [quiet\<lparr>task_input := ''go'', launches := False\<rparr>] (first_state Missing)) =
     Some ''go'' \<and>
   execute_browser_action sample_lib (page_answer empty_decisions) None [] =
     (Inr (False, None), None, []) \<and>
   fst (main sample_lib empty_decisions
          (runs sample_lib [quiet\<lparr>task_input := ''go'', launches := False\<rparr>] (first_state Missing))) =
     Raised AttributeError \<and>
   trace (runs sample_lib
     [quiet\<lparr>task_input := ''go'', launches := False\<rparr>, empty_decisions, empty_decisions]
     (first_state Missing)) =
   [Page Launch,
    Planner (Get_next_action ''go''
      (Some [(''current_url'', JStr ''''), (''page_content'', JStr '''')])
      (Some [\<lparr>role = ''user'', content = ''go''\<rparr>])),
    Returned (Inr (False, None)),
    Planner (Get_next_action ''go''
      (Some [(''current_url'', JStr ''''), (''page_content'', JStr '''')])
      (Some [\<lparr>role = ''user'', content = ''go''\<rparr>, \<lparr>role = ''assistant'', content = ''{}''\<rparr>])),
    Returned (Inr (False, None))]"
  by (simp add: run_defs empty_decisions_def Let_def)

section \<open>The finished decision\<close>

lemma main_finished:
  "task_planner s = Some P \<Longrightarrow> user_task s = Some task \<Longrightarrow> task \<noteq> [] \<Longrightarrow> finished s \<Longrightarrow>
   main L env s = (Done, s)"
  by (simp add: main_def session_planner_def)

lemma runs_finished:
  "task_planner s = Some P \<Longrightarrow> user_task s = Some task \<Longrightarrow> task \<noteq> [] \<Longrightarrow> finished s \<Longrightarrow>
   runs L envs s = s"
  by (induction envs) (simp_all add: main_finished)

text \<open>
  C2. For a decision whose \<open>action_type\<close> is \<open>finished\<close>, \<open>execute_browser_action\<close> returns
  success with no driver operation and the driver as it was. The loop then sets the
  finished flag and the run ends; from then on every run of the session, whatever the
  world answers, leaves the state and the observed events as they are, so no driver call
  follows. Only the button that starts a new task, pressed in the run that finished,
  closes the driver and clears the session.
\<close>

theorem finished_is_terminal:
  assumes "dict_get d ''action_type'' JNull = JStr ''finished''"
  shows "execute_browser_action L r a d = (Inr (True, Some ''finished''), a, []) \<and>
         (\<not> start_new_task env \<longrightarrow>
            execute L env P d s =
              (Done, s\<lparr>trace := trace s @ [Returned (Inr (True, Some ''finished''))],
                       finished := True\<rparr>)) \<and>
         (\<not> start_new_task env \<and> task_planner s = Some P \<and> user_task s = Some task \<and> task \<noteq> [] \<longrightarrow>
            (\<forall>envs. runs L envs (snd (execute L env P d s)) = snd (execute L env P d s))) \<and>
         (start_new_task env \<and> closes env \<longrightarrow>
            fst (execute L env P d s) = Rerun \<and>
            \<not> finished (snd (execute L env P d s)) \<and>
            user_task (snd (execute L env P d s)) = None \<and>
            current_action (snd (execute L env P d s)) = None \<and>
            agent (snd (execute L env P d s)) = None)"
proof -
  have has: "dict_has d ''action_type''"
    using assms by (auto simp: dict_get_def dict_has_def split: option.splits)
  have ex: "\<And>r a. execute_browser_action L r a d = (Inr (True, Some ''finished''), a, [])"
    using assms has by (simp add: execute_browser_action_def)
  have fin: "\<not> start_new_task env \<Longrightarrow> execute L env P d s =
              (Done, s\<lparr>trace := trace s @ [Returned (Inr (True, Some ''finished''))],
                       finished := True\<rparr>)"
    using assms by (simp add: execute_def ex on_success_def Let_def)
  have new: "start_new_task env \<and> closes env \<longrightarrow>
            fst (execute L env P d s) = Rerun \<and>
            \<not> finished (snd (execute L env P d s)) \<and>
            user_task (snd (execute L env P d s)) = None \<and>
            current_action (snd (execute L env P d s)) = None \<and>
            agent (snd (execute L env P d s)) = None"
    using assms
    by (simp add: execute_def ex on_success_def new_task_def Let_def split: option.splits)
  show ?thesis
    using ex fin new by (auto intro!: runs_finished)
qed

theorem finished_is_terminal_witness:
  "dict_get finished_decision ''action_type'' JNull = JStr ''finished'' \<and>
   execute_browser_action sample_lib Page_raises (Some BrowserAgent_init) finished_decision =
     (Inr (True, Some ''finished''), Some BrowserAgent_init, []) \<and>
   fst (execute sample_lib quiet sample_planner finished_decision
          (sample_state\<lparr>current_action := Some finished_decision\<rparr>)) = Done \<and>
   finished (snd (execute sample_lib quiet sample_planner finished_decision
                    (sample_state\<lparr>current_action := Some finished_decision\<rparr>))) \<and>
   trace (runs sample_lib [quiet\<lparr>task_input := ''again''\<rparr>, failing_click]
            (snd (execute sample_lib quiet sample_planner finished_decision
                    (sample_state\<lparr>current_action := Some finished_decision\<rparr>)))) =
     [Page Launch, Returned (Inr (True, Some ''finished''))]"
proof -
  let ?s = "sample_state\<lparr>current_action := Some finished_decision\<rparr>"
  let ?after = "snd (execute sample_lib quiet sample_planner finished_decision ?s)"
  have h: "dict_get finished_decision ''action_type'' JNull = JStr ''finished''"
    by (simp add: finished_decision_def dict_get_def)
  have q: "\<not> start_new_task quiet" "task_planner ?s = Some sample_planner"
      "user_task ?s = Some ''go''" "''go'' \<noteq> []"
    by (simp_all add: quiet_def sample_state_def)
  note T = finished_is_terminal [OF h, of sample_lib Page_raises "Some BrowserAgent_init" quiet
      sample_planner ?s "''go''"]
  have e1: "execute_browser_action sample_lib Page_raises (Some BrowserAgent_init) finished_decision =
     (Inr (True, Some ''finished''), Some BrowserAgent_init, [])"
    using T by blast
  have e2: "execute sample_lib quiet sample_planner finished_decision ?s =
      (Done, ?s\<lparr>trace := trace ?s @ [Returned (Inr (True, Some ''finished''))], finished := True\<rparr>)"
    using T q(1) by blast
  have e3: "runs sample_lib [quiet\<lparr>task_input := ''again''\<rparr>, failing_click] ?after = ?after"
    using T q by blast
  have e4: "trace ?after = [Page Launch, Returned (Inr (True, Some ''finished''))]"
    unfolding e2 by (simp add: sample_state_def)
  show ?thesis
    unfolding e3 e4 using h e1 by (simp add: e2)
qed

section \<open>Extracted text\<close>

text \<open>
  C7 as stated fails for the empty text: the extraction succeeds with the text \<open>''''\<close>, and
  the run stores no extracted content and appends nothing to the history.
\<close>

theorem empty_extracted_text_dropped:
  "fst (execute_browser_action sample_lib (page_answer empty_text_found) (Some BrowserAgent_init)
          extract_price) = Inr (True, Some '''') \<and>
   extracted_content (snd (main sample_lib empty_text_found
      (sample_state\<lparr>current_action := Some extract_price\<rparr>))) = None \<and>
   conversation_history (snd (main sample_lib empty_text_found
      (sample_state\<lparr>current_action := Some extract_price\<rparr>))) = [\<lparr>role = ''user'', content = ''go''\<rparr>]"
  by (simp add: run_defs empty_text_found_def extract_price_def Let_def)

text \<open>
  C7, amended. An extraction whose element is found and gives the text \<open>t\<close> succeeds with
  \<open>t\<close>, the pending decision is cleared and the script is rerun. When \<open>t\<close> is not empty
  the loop stores it as the session's extracted content and appends the history entry
  \<open>Extracted content: t\<close>; when \<open>t\<close> is empty it stores nothing and appends nothing.
\<close>

theorem extracted_text_recorded:
  assumes "dict_get d ''action_type'' JNull = JStr ''extract''"
    and "BrowserAction_of (Some EXTRACT) d = Inr a"
    and "agent s = Some ag"
    and "page_answer env = Page_returns (Some (Inner_text t))"
  shows "execute_browser_action L (page_answer env) (agent s) d =
           (Inr (True, Some t), Some ag,
            [Wait_for_selector (get_selector L (selector_type a) (selector a)) (timeout a)]) \<and>
         fst (execute L env P d s) = Rerun \<and>
         current_action (snd (execute L env P d s)) = None \<and>
         (t \<noteq> [] \<longrightarrow>
            extracted_content (snd (execute L env P d s)) = Some t \<and>
            conversation_history (snd (execute L env P d s)) =
              conversation_history s @ [\<lparr>role = ''user'', content = ''Extracted content: '' @ t\<rparr>]) \<and>
         (t = [] \<longrightarrow>
            extracted_content (snd (execute L env P d s)) = extracted_content s \<and>
            conversation_history (snd (execute L env P d s)) = conversation_history s)"
proof -
  have has: "dict_has d ''action_type''"
    using assms(1) by (auto simp: dict_get_def dict_has_def split: option.splits)
  have kind: "action_type a = Some EXTRACT"
    using BrowserAction_of_kind [OF assms(2)] .
  have ex: "execute_browser_action L (page_answer env) (agent s) d =
           (Inr (True, Some t), Some ag,
            [Wait_for_selector (get_selector L (selector_type a) (selector a)) (timeout a)])"
    using assms has kind
    by (simp add: execute_browser_action_def dispatch_def extract_content_def Let_def)
  show ?thesis
    using ex assms(1) by (simp add: execute_def on_success_def Let_def)
qed

theorem extracted_text_recorded_witness:
  "dict_get extract_price ''action_type'' JNull = JStr ''extract'' \<and>
   BrowserAction_of (Some EXTRACT) extract_price =
     Inr \<lparr>action_type = Some EXTRACT, selector_type = Some CSS, selector = JStr ''.price'',
          input_value = JNull, requires_user_input = JBool False, user_prompt = JNull,
          timeout = JInt 10000\<rparr> \<and>
   agent (sample_state\<lparr>current_action := Some extract_price\<rparr>) = Some BrowserAgent_init \<and>
   page_answer price_found = Page_returns (Some (Inner_text ''$19.99'')) \<and>
   extracted_content (snd (execute sample_lib price_found sample_planner extract_price
      (sample_state\<lparr>current_action := Some extract_price\<rparr>))) = Some ''$19.99'' \<and>
   conversation_history (snd (execute sample_lib price_found sample_planner extract_price
      (sample_state\<lparr>current_action := Some extract_price\<rparr>))) =
     [\<lparr>role = ''user'', content = ''go''\<rparr>,
      \<lparr>role = ''user'', content = ''Extracted content: $19.99''\<rparr>]"
proof -
  have h1: "dict_get extract_price ''action_type'' JNull = JStr ''extract''"
    by (simp add: extract_price_def dict_get_def)
  have h2: "BrowserAction_of (Some EXTRACT) extract_price =
     Inr \<lparr>action_type = Some EXTRACT, selector_type = Some CSS, selector = JStr ''.price'',
          input_value = JNull, requires_user_input = JBool False, user_prompt = JNull,
          timeout = JInt 10000\<rparr>"
    by (simp add: extract_price_def BrowserAction_of_def dict_get_def)
  have h3: "agent (sample_state\<lparr>current_action := Some extract_price\<rparr>) = Some BrowserAgent_init"
    by (simp add: sample_state_def)
  have h4: "page_answer price_found = Page_returns (Some (Inner_text ''$19.99''))"
    by (simp add: price_found_def)
  show ?thesis
    using h1 h2 h3 h4 extracted_text_recorded [OF h1 h2 h3 h4, of sample_lib sample_planner]
    by (simp add: sample_state_def)
qed

section \<open>Waiting for the user's answer\<close>

lemma dict_get_set_other:
  "k' \<noteq> k \<Longrightarrow> dict_get (dict_set d k v) k' dflt = dict_get d k' dflt"
  by (simp add: dict_get_def dict_set_def update_conv')

lemma dict_has_set_other:
  "k' \<noteq> k \<Longrightarrow> dict_has (dict_set d k v) k' = dict_has d k'"
  by (simp add: dict_has_def dict_set_def update_conv')

lemma dict_get_set_same: "dict_get (dict_set d k v) k dflt = v"
  by (simp add: dict_get_def dict_set_def update_conv')

text \<open>
  C5. Let the pending decision have a true \<open>requires_user_input\<close>. When its prompt cannot
  be a dictionary key the run raises \<open>TypeError\<close>; when no answer is recorded for the
  prompt, the run issues no driver call and calls no planner. Without Submit the run ends
  and the session is as before. On Submit the answer is recorded for the prompt, it is
  written as the \<open>input_value\<close> of the pending decision, the message
  \<open>User provided input: answer\<close> is appended to the history, and the script is rerun;
  the next run then executes the decision that carries the answer.
\<close>

theorem unanswered_prompt_blocks_dispatch:
  assumes "truthy (dict_get d ''requires_user_input'' (JBool False))"
  shows "(hash_key (dict_get d ''user_prompt'' (JStr '''')) = None \<longrightarrow>
            fst (act L env P d s) = Raised TypeError \<and> trace (snd (act L env P d s)) = trace s) \<and>
         (\<forall>k. hash_key (dict_get d ''user_prompt'' (JStr '''')) = Some k \<and>
               map_of (user_inputs s) k = None \<longrightarrow>
            trace (snd (act L env P d s)) = trace s \<and>
            (\<not> submit env \<longrightarrow>
               fst (act L env P d s) = Done \<and>
               user_inputs (snd (act L env P d s)) = user_inputs s \<and>
               current_action (snd (act L env P d s)) = current_action s \<and>
               conversation_history (snd (act L env P d s)) = conversation_history s) \<and>
            (submit env \<longrightarrow>
               fst (act L env P d s) = Rerun \<and>
               map_of (user_inputs (snd (act L env P d s))) k = Some (user_response env) \<and>
               current_action (snd (act L env P d s)) =
                 Some (dict_set d ''input_value'' (JStr (user_response env))) \<and>
               dict_get (dict_set d ''input_value'' (JStr (user_response env))) ''input_value'' JNull =
                 JStr (user_response env) \<and>
               conversation_history (snd (act L env P d s)) =
                 conversation_history s
                 @ [\<lparr>role = ''user'', content = ''User provided input: '' @ user_response env\<rparr>] \<and>
               (\<forall>env'. act L env' P (dict_set d ''input_value'' (JStr (user_response env)))
                          (snd (act L env P d s)) =
                        execute L env' P (dict_set d ''input_value'' (JStr (user_response env)))
                          (snd (act L env P d s)))))"
proof -
  have A: "fst (act L env P d s) = Raised TypeError \<and> trace (snd (act L env P d s)) = trace s"
    if "hash_key (dict_get d ''user_prompt'' (JStr '''')) = None"
    using assms that by (simp add: act_def Let_def)
  have B: "trace (snd (act L env P d s)) = trace s \<and>
            (\<not> submit env \<longrightarrow>
               fst (act L env P d s) = Done \<and>
               user_inputs (snd (act L env P d s)) = user_inputs s \<and>
               current_action (snd (act L env P d s)) = current_action s \<and>
               conversation_history (snd (act L env P d s)) = conversation_history s) \<and>
            (submit env \<longrightarrow>
               fst (act L env P d s) = Rerun \<and>
               map_of (user_inputs (snd (act L env P d s))) k = Some (user_response env) \<and>
               current_action (snd (act L env P d s)) =
                 Some (dict_set d ''input_value'' (JStr (user_response env))) \<and>
               dict_get (dict_set d ''input_value'' (JStr (user_response env))) ''input_value'' JNull =
                 JStr (user_response env) \<and>
               conversation_history (snd (act L env P d s)) =
                 conversation_history s
                 @ [\<lparr>role = ''user'', content = ''User provided input: '' @ user_response env\<rparr>] \<and>
               (\<forall>env'. act L env' P (dict_set d ''input_value'' (JStr (user_response env)))
                          (snd (act L env P d s)) =
                        execute L env' P (dict_set d ''input_value'' (JStr (user_response env)))
                          (snd (act L env P d s))))"
    if k: "hash_key (dict_get d ''user_prompt'' (JStr '''')) = Some k \<and>
           map_of (user_inputs s) k = None" for k
  proof -
    define s1 where "s1 = (if dict_has d ''task_progress''
                  then s\<lparr>task_progress := dict_get d ''task_progress'' JNull\<rparr> else s)"
    let ?d' = "dict_set d ''input_value'' (JStr (user_response env))"
    let ?s' = "s1\<lparr>user_inputs := AList.update k (user_response env) (user_inputs s1),
           current_action := Some ?d',
           conversation_history := conversation_history s1
             @ [\<lparr>role = ''user'', content = ''User provided input: '' @ user_response env\<rparr>]\<rparr>"
    have a: "act L env P d s = await env d k s1"
      using assms k by (simp add: act_def Let_def s1_def)
    have t: "trace (snd (act L env P d s)) = trace s"
      by (simp add: a await_def s1_def)
    have ns: "fst (act L env P d s) = Done \<and>
               user_inputs (snd (act L env P d s)) = user_inputs s \<and>
               current_action (snd (act L env P d s)) = current_action s \<and>
               conversation_history (snd (act L env P d s)) = conversation_history s"
      if "\<not> submit env"
      using that by (simp add: a await_def s1_def)
    have sub: "fst (act L env P d s) = Rerun \<and>
               map_of (user_inputs (snd (act L env P d s))) k = Some (user_response env) \<and>
               current_action (snd (act L env P d s)) = Some ?d' \<and>
               dict_get ?d' ''input_value'' JNull = JStr (user_response env) \<and>
               conversation_history (snd (act L env P d s)) =
                 conversation_history s
                 @ [\<lparr>role = ''user'', content = ''User provided input: '' @ user_response env\<rparr>] \<and>
               (\<forall>env'. act L env' P ?d' (snd (act L env P d s)) =
                        execute L env' P ?d' (snd (act L env P d s)))"
      if "submit env"
    proof -
      have s': "act L env P d s = (Rerun, ?s')"
        using that by (simp add: a await_def)
      have tp: "(if dict_has ?d' ''task_progress''
                  then ?s'\<lparr>task_progress := dict_get ?d' ''task_progress'' JNull\<rparr> else ?s') = ?s'"
        by (simp add: dict_has_set_other dict_get_set_other s1_def)
      have next_run: "act L env' P ?d' ?s' = execute L env' P ?d' ?s'" for env'
        unfolding act_def Let_def tp
        using assms k by (simp add: dict_get_set_other update_conv' s1_def)
      show ?thesis
        unfolding s' using next_run
        by (simp add: update_conv' dict_get_set_same s1_def)
    qed
    show ?thesis
      using t ns sub by blast
  qed
  show ?thesis
    using A B by blast
qed

theorem unanswered_prompt_blocks_dispatch_witness:
  "truthy (dict_get ask_email ''requires_user_input'' (JBool False)) \<and>
   hash_key (dict_get ask_email ''user_prompt'' (JStr '''')) = Some (JStr ''What is your email?'') \<and>
   map_of (user_inputs (sample_state\<lparr>current_action := Some ask_email\<rparr>))
     (JStr ''What is your email?'') = None \<and>
   submit email_submitted \<and>
   trace (snd (act sample_lib email_submitted sample_planner ask_email
                 (sample_state\<lparr>current_action := Some ask_email\<rparr>))) = [Page Launch] \<and>
   current_action (snd (act sample_lib email_submitted sample_planner ask_email
                          (sample_state\<lparr>current_action := Some ask_email\<rparr>))) =
     Some (ask_email @ [(''input_value'', JStr ''a@b.com'')]) \<and>
   conversation_history (snd (act sample_lib email_submitted sample_planner ask_email
                                (sample_state\<lparr>current_action := Some ask_email\<rparr>))) =
     [\<lparr>role = ''user'', content = ''go''\<rparr>,
      \<lparr>role = ''user'', content = ''User provided input: a@b.com''\<rparr>]"
proof -
  have h: "truthy (dict_get ask_email ''requires_user_input'' (JBool False))"
    by (simp add: ask_email_def dict_get_def)
  have k: "hash_key (dict_get ask_email ''user_prompt'' (JStr '''')) = Some (JStr ''What is your email?'') \<and>
      map_of (user_inputs (sample_state\<lparr>current_action := Some ask_email\<rparr>))
        (JStr ''What is your email?'') = None"
    by (simp add: ask_email_def dict_get_def sample_state_def)
  have e: "submit email_submitted \<and> user_response email_submitted = ''a@b.com''"
    by (simp add: email_submitted_def)
  have d: "dict_set ask_email ''input_value'' (JStr ''a@b.com'') =
      ask_email @ [(''input_value'', JStr ''a@b.com'')]"
    by (simp add: dict_set_def ask_email_def)
  show ?thesis
    using h k e d
      unanswered_prompt_blocks_dispatch [OF h, of sample_lib email_submitted sample_planner
        "sample_state\<lparr>current_action := Some ask_email\<rparr>"]
    by (simp add: sample_state_def)
qed

section \<open>The interaction log\<close>

lemma extends_log_refl: "extends_log P f f"
  by (simp add: extends_log_def)

lemma extends_log_trans:
  "extends_log P f f' \<Longrightarrow> extends_log P f' f'' \<Longrightarrow> extends_log P f f''"
  unfolding extends_log_def by fastforce

lemma extends_log_entry:
  "itype \<in> {''get_next_action'', ''handle_error''} \<Longrightarrow>
   extends_log P f (log_llm_interaction now P itype msgs raw res f)"
  unfolding extends_log_def log_llm_interaction_def
  by (simp add: log_entries_def Let_def)

lemma get_next_action_log:
  "extends_log P f (snd (snd (get_next_action L reply now P u cs h f)))"
  unfolding get_next_action_def
  by (simp add: extends_log_refl extends_log_entry Let_def split: llm_reply.splits option.splits)

lemma handle_error_log:
  "extends_log P f (snd (snd (handle_error L reply now P err cs h f)))"
  unfolding handle_error_def
  by (simp add: extends_log_refl extends_log_entry Let_def split: llm_reply.splits option.splits)

lemma get_next_action_logD:
  "get_next_action L reply now P u cs h f = (res, h', f') \<Longrightarrow> extends_log P f f'"
  using get_next_action_log [of P f L reply now u cs h] by simp

lemma handle_error_logD:
  "handle_error L reply now P err cs h f = (res, h', f') \<Longrightarrow> extends_log P f f'"
  using handle_error_log [of P f L reply now err cs h] by simp

lemma plan_log:
  "extends_log P (log_file s) (log_file (snd (plan L env P task s))) \<and>
   task_planner (snd (plan L env P task s)) = task_planner s"
proof (cases "current_action s = None \<or> current_action s = Some []")
  case False
  then have "plan L env P task s = (None, s)"
    unfolding plan_def by (simp only: if_False)
  then show ?thesis by (simp add: extends_log_refl)
next
  case True
  have "plan L env P task s =
     (case (case agent s of
                 Some ag \<Rightarrow> (get_current_url ag, get_page_content (snapshot_plan env))
               | None \<Rightarrow> (JStr [], [], [])) of
           (url, html, calls) \<Rightarrow>
             (let current_state = [(''current_url'', url), (''page_content'', JStr html)] in
              case get_next_action L (plan_reply env) (plan_time env) P task (Some current_state)
                     (Some (conversation_history s)) (log_file s) of
                (res, h, f) \<Rightarrow>
                  (let s1 = s\<lparr>conversation_history :=
                                 (case h of Some h' \<Rightarrow> h' | None \<Rightarrow> conversation_history s),
                               log_file := f,
                               trace := trace s @ map Page calls
                                 @ [Planner (Get_next_action task (Some current_state)
                                      (Some (conversation_history s)))]\<rparr>
                   in case res of
                        Inl e \<Rightarrow> (Some e, s1)
                      | Inr result \<Rightarrow> (None, s1\<lparr>current_action := Some result\<rparr>))))"
    unfolding plan_def using True by (simp only: if_True)
  then show ?thesis
    by (auto simp: Let_def split: prod.splits sum.splits option.splits
        dest: get_next_action_logD)
qed

lemma recover_log:
  "extends_log P (log_file s) (log_file (snd (recover L env P s))) \<and>
   task_planner (snd (recover L env P s)) = task_planner s"
proof (cases "agent s")
  case None
  then show ?thesis by (simp add: recover_def extends_log_refl)
next
  case (Some ag)
  obtain html calls where st: "get_page_content (snapshot_recover env) = (html, calls)"
    by (metis surj_pair)
  obtain res h f where g: "handle_error L (recover_reply env) (recover_time env) P ''Action failed''
      [(''current_url'', get_current_url ag), (''page_content'', JStr html)]
      (conversation_history s) (log_file s) = (res, h, f)"
    by (metis prod_cases3)
  have "extends_log P (log_file s) f"
    using handle_error_log [of P "log_file s" L "recover_reply env" "recover_time env"
        "''Action failed''" "[(''current_url'', get_current_url ag), (''page_content'', JStr html)]"
        "conversation_history s"] g by simp
  then show ?thesis
    using Some st g by (auto simp: recover_def Let_def split: sum.splits)
qed

lemma on_success_log:
  "log_file (snd (on_success env d x s)) = log_file s \<and>
   task_planner (snd (on_success env d x s)) = task_planner s"
  by (simp add: on_success_def new_task_def Let_def split: option.splits)

lemma await_log:
  "log_file (snd (await env d k s)) = log_file s \<and>
   task_planner (snd (await env d k s)) = task_planner s"
  by (simp add: await_def)

lemma execute_log:
  "extends_log P (log_file s) (log_file (snd (execute L env P d s))) \<and>
   task_planner (snd (execute L env P d s)) = task_planner s"
proof -
  obtain res a' calls where e: "execute_browser_action L (page_answer env) (agent s) d = (res, a', calls)"
    by (metis prod_cases3)
  show ?thesis
  proof (cases res)
    case (Inl x)
    then show ?thesis using e by (simp add: execute_def extends_log_refl)
  next
    case (Inr p)
    obtain success extracted where p: "p = (success, extracted)" by (cases p)
    show ?thesis
    proof (cases success)
      case True
      then show ?thesis
        using e Inr p on_success_log [of env d extracted]
        by (simp add: execute_def extends_log_refl)
    next
      case False
      then show ?thesis
        using e Inr p
          recover_log [of P "s\<lparr>agent := a', trace := trace s @ map Page calls @ [Returned res]\<rparr>" L env]
        by (simp add: execute_def)
    qed
  qed
qed

lemma act_log:
  "extends_log P (log_file s) (log_file (snd (act L env P d s))) \<and>
   task_planner (snd (act L env P d s)) = task_planner s"
  using execute_log [of P "s\<lparr>task_progress := dict_get d ''task_progress'' JNull\<rparr>" L env d]
    execute_log [of P s L env d]
    await_log [of env d _ "s\<lparr>task_progress := dict_get d ''task_progress'' JNull\<rparr>"]
    await_log [of env d _ s]
  by (auto simp: act_def Let_def extends_log_refl split: option.splits)

lemma run_task_log:
  "extends_log P (log_file s) (log_file (snd (run_task L env P task s))) \<and>
   task_planner (snd (run_task L env P task s)) = task_planner s"
proof -
  obtain e s1 where p: "plan L env P task s = (e, s1)" by (metis surj_pair)
  have s1: "extends_log P (log_file s) (log_file s1)" "task_planner s1 = task_planner s"
    using plan_log [of P s L env task] p by simp_all
  show ?thesis
  proof (cases e)
    case (Some x)
    then show ?thesis using p s1 by (simp add: run_task_def)
  next
    case None
    show ?thesis
    proof (cases "current_action s1")
      case None
      then show ?thesis using p s1 \<open>e = None\<close> by (simp add: run_task_def)
    next
      case (Some d)
      then show ?thesis
        using p s1 \<open>e = None\<close> act_log [of P s1 L env d]
        by (auto simp: run_task_def intro: extends_log_trans)
    qed
  qed
qed

lemma main_log:
  assumes "task_planner s = Some P"
  shows "extends_log P (log_file s) (log_file (snd (main L env s))) \<and>
         task_planner (snd (main L env s)) = Some P"
  using assms run_task_log [of P s L env]
  by (auto simp: main_def session_planner_def start_task_def Let_def extends_log_refl
      split: option.splits)

lemma runs_log:
  "task_planner s = Some P \<Longrightarrow> extends_log P (log_file s) (log_file (runs L envs s))"
proof (induction envs arbitrary: s)
  case Nil
  then show ?case by (simp add: extends_log_refl)
next
  case (Cons env envs)
  have m: "extends_log P (log_file s) (log_file (snd (main L env s)))"
      "task_planner (snd (main L env s)) = Some P"
    using main_log [OF Cons.prems] by simp_all
  show ?case
    using extends_log_trans [OF m(1) Cons.IH [OF m(2)]] by simp
qed

text \<open>
  C9 as stated fails on the values of \<open>interaction_type\<close>: a run in which the planner is
  asked for a decision and then for a recovery writes two records, whose types are the
  strings \<open>get_next_action\<close> and \<open>handle_error\<close>.
\<close>

theorem interaction_type_values:
  "map interaction_type (log_entries (log_file (snd (main sample_lib empty_decisions sample_state)))) =
     [''get_next_action'', ''handle_error'']"
  by (simp add: run_defs empty_decisions_def Let_def)

text \<open>
  C9, amended. Creating a planner leaves the log file without records, and the first run of
  a session creates it. A call of \<open>get_next_action\<close> or \<open>handle_error\<close> whose answer
  decodes writes the file's records followed by one new record, which carries the
  timestamp, the planner's session id, the interaction type \<open>get_next_action\<close> or
  \<open>handle_error\<close>, the request messages, the raw response text and the decoded result.
  Over any sequence of runs of a session the records already in the file stay, in their
  order, and the records added after them all have one of the two types and the session's
  id.
\<close>

theorem interaction_log_records:
  "log_entries (snd (TaskPlanner_init L uuid)) = [] \<and>
   (task_planner s = None \<longrightarrow> log_file (snd (session_planner L env s)) = Blank) \<and>
   snd (snd (get_next_action L (LLM_returns raw (Some result)) now P u cs h f)) =
     Dumped (log_entries f @
       [\<lparr>timestamp = now, entry_session_id = session_id P,
         interaction_type = ''get_next_action'',
         messages = next_action_messages L P u cs h,
         response = raw, parsed_result = result\<rparr>]) \<and>
   snd (snd (handle_error L (LLM_returns raw (Some result)) now P err cs' h' f)) =
     Dumped (log_entries f @
       [\<lparr>timestamp = now, entry_session_id = session_id P,
         interaction_type = ''handle_error'',
         messages = handle_error_messages L P err cs' h',
         response = raw, parsed_result = result\<rparr>]) \<and>
   (task_planner s = Some P \<longrightarrow>
      (\<exists>new. log_entries (log_file (runs L envs s)) = log_entries (log_file s) @ new \<and>
         (\<forall>e \<in> set new. interaction_type e \<in> {''get_next_action'', ''handle_error''} \<and>
                          entry_session_id e = session_id P)))"
proof -
  have r: "task_planner s = Some P \<Longrightarrow>
      (\<exists>new. log_entries (log_file (runs L envs s)) = log_entries (log_file s) @ new \<and>
         (\<forall>e \<in> set new. interaction_type e \<in> {''get_next_action'', ''handle_error''} \<and>
                          entry_session_id e = session_id P))"
    using runs_log [of s P L envs] unfolding extends_log_def .
  show ?thesis
    using r
    by (simp add: TaskPlanner_init_def session_planner_def log_entries_def get_next_action_def
        handle_error_def log_llm_interaction_def Let_def)
qed

theorem interaction_log_records_witness:
  "task_planner (first_state Missing) = None \<and>
   log_file (snd (session_planner sample_lib quiet (first_state Missing))) = Blank \<and>
   task_planner sample_state = Some sample_planner \<and>
   (\<exists>new. log_entries (log_file (runs sample_lib [empty_decisions, failing_click] sample_state)) =
            log_entries (log_file sample_state) @ new \<and>
          (\<forall>e \<in> set new. interaction_type e \<in> {''get_next_action'', ''handle_error''} \<and>
                           entry_session_id e = session_id sample_planner))"
proof -
  have h1: "task_planner (first_state Missing) = None"
    by (simp add: first_state_def)
  have h2: "task_planner sample_state = Some sample_planner"
    by (simp add: sample_state_def)
  show ?thesis
    using h1 h2
      interaction_log_records [of sample_lib "uuid4 quiet" "first_state Missing" quiet]
      interaction_log_records [of sample_lib "uuid4 quiet" sample_state quiet _ _ _
        sample_planner _ _ _ _ _ _ _ "[empty_decisions, failing_click]"]
    by simp
qed

end
